theory Spec2Isabelle
  imports Complex_Main
begin

section \<open>Python values, exceptions and float arithmetic\<close>

text \<open>
  The exceptions that \<^verbatim>\<open>psrsigsim/ism/ism.py\<close> can raise, either by a
  \<^verbatim>\<open>raise\<close> statement or from the interpreter and the libraries.  A function that
  may raise returns \<open>py_error + 'a\<close>, with \<open>Inl\<close> for the exception.
\<close>

datatype py_error =
    ValueError | TypeError | AttributeError | IndexError | ZeroDivisionError
  | OverflowError | UnboundLocalError | NotImplementedError | UnitConversionError

text \<open>
  A float is a finite number, an infinity or NaN.  Finite values are real numbers:
  rounding and the sign of zero are not represented.  \<open>float_max\<close> is the largest
  double, \<open>float_tiny\<close> half the smallest one (magnitudes up to it round to zero) and
  \<open>float_min\<close> the smallest normal double.  \<open>fl\<close> brings the exact result of a scalar
  operation into the range of the doubles.
\<close>

datatype pyfloat = Finite real | PInf | NInf | NaN

definition float_max :: real where
  "float_max = (2 - 1 / 2 ^ 52) * 2 ^ 1023"

definition float_tiny :: real where
  "float_tiny = 1 / 2 ^ 1075"

definition float_min :: real where
  "float_min = 1 / 2 ^ 1022"

definition fl :: "real \<Rightarrow> pyfloat" where
  "fl r = (if float_max < r then PInf
           else if r < - float_max then NInf
           else if \<bar>r\<bar> \<le> float_tiny then Finite 0
           else Finite r)"

fun float_sgn :: "pyfloat \<Rightarrow> real" where
  "float_sgn (Finite a) = sgn a"
| "float_sgn PInf = 1"
| "float_sgn NInf = - 1"
| "float_sgn NaN = 0"

definition inf_of_sign :: "real \<Rightarrow> pyfloat" where
  "inf_of_sign s = (if s = 0 then NaN else if 0 < s then PInf else NInf)"

subsection \<open>Elementwise arithmetic of numpy arrays and quantities\<close>

text \<open>
  The operations of numpy raise nothing: a division by zero gives an infinity or NaN,
  the logarithm of zero is \<open>-inf\<close> and of a negative number NaN.  Finite sums,
  products and quotients are taken as exact; powers are brought into the range of the
  doubles.
\<close>

fun np_mul :: "pyfloat \<Rightarrow> pyfloat \<Rightarrow> pyfloat" where
  "np_mul (Finite a) (Finite b) = Finite (a * b)"
| "np_mul NaN y = NaN"
| "np_mul x NaN = NaN"
| "np_mul x y = inf_of_sign (float_sgn x * float_sgn y)"

fun np_add :: "pyfloat \<Rightarrow> pyfloat \<Rightarrow> pyfloat" where
  "np_add (Finite a) (Finite b) = Finite (a + b)"
| "np_add NaN y = NaN"
| "np_add x NaN = NaN"
| "np_add PInf NInf = NaN"
| "np_add NInf PInf = NaN"
| "np_add (Finite a) y = y"
| "np_add x y = x"

fun np_div :: "pyfloat \<Rightarrow> pyfloat \<Rightarrow> pyfloat" where
  "np_div (Finite a) (Finite b) = (if b = 0 then inf_of_sign (sgn a) else Finite (a / b))"
| "np_div NaN y = NaN"
| "np_div x NaN = NaN"
| "np_div (Finite a) y = Finite 0"
| "np_div x (Finite b) = inf_of_sign (float_sgn x * (if b < 0 then - 1 else 1))"
| "np_div x y = NaN"

fun np_log :: "pyfloat \<Rightarrow> pyfloat" where
  "np_log (Finite a) = (if 0 < a then Finite (ln a) else if a = 0 then NInf else NaN)"
| "np_log PInf = PInf"
| "np_log x = NaN"

text \<open>
  \<^verbatim>\<open>np.power(x, k)\<close> with an integer \<open>k\<close>: the power of a finite number
  overflows to an infinity and underflows to zero.
\<close>

fun np_power_int :: "pyfloat \<Rightarrow> int \<Rightarrow> pyfloat" where
  "np_power_int (Finite a) k = (if a = 0 \<and> k < 0 then PInf else fl (a powi k))"
| "np_power_int PInf k = (if k = 0 then Finite 1 else if 0 < k then PInf else Finite 0)"
| "np_power_int NInf k =
     (if k = 0 then Finite 1 else if k < 0 then Finite 0 else if odd k then NInf else PInf)"
| "np_power_int NaN k = (if k = 0 then Finite 1 else NaN)"

text \<open>
  The power function of the C library, which numpy applies elementwise for a float
  exponent: an overflow gives an infinity, a negative base with a fractional exponent NaN.
\<close>

definition is_odd_integer :: "real \<Rightarrow> bool" where
  "is_odd_integer b = (b = of_int \<lfloor>b\<rfloor> \<and> odd \<lfloor>b\<rfloor>)"

fun c_pow :: "pyfloat \<Rightarrow> pyfloat \<Rightarrow> pyfloat" where
  "c_pow (Finite a) (Finite b) =
     (if b = 0 then Finite 1
      else if a = 0 then (if b < 0 then PInf else Finite 0)
      else if 0 < a then fl (a powr b)
      else if b = of_int \<lfloor>b\<rfloor>
        then fl ((if even \<lfloor>b\<rfloor> then 1 else - 1) * ((- a) powr b))
      else NaN)"
| "c_pow NaN (Finite b) = (if b = 0 then Finite 1 else NaN)"
| "c_pow (Finite a) NaN = (if a = 1 then Finite 1 else NaN)"
| "c_pow NaN y = NaN"
| "c_pow x NaN = NaN"
| "c_pow (Finite a) PInf =
     (if \<bar>a\<bar> = 1 then Finite 1 else if \<bar>a\<bar> < 1 then Finite 0 else PInf)"
| "c_pow (Finite a) NInf =
     (if \<bar>a\<bar> = 1 then Finite 1 else if \<bar>a\<bar> < 1 then PInf else Finite 0)"
| "c_pow x PInf = PInf"
| "c_pow x NInf = Finite 0"
| "c_pow PInf (Finite b) = (if b = 0 then Finite 1 else if 0 < b then PInf else Finite 0)"
| "c_pow NInf (Finite b) =
     (if b = 0 then Finite 1
      else if b < 0 then Finite 0
      else if is_odd_integer b then NInf else PInf)"

subsection \<open>Arithmetic of Python scalars\<close>

text \<open>
  On Python floats \<^verbatim>\<open>*\<close> and \<^verbatim>\<open>/\<close> overflow to an infinity, \<^verbatim>\<open>/\<close> raises
  ZeroDivisionError for a zero divisor, and \<^verbatim>\<open>**\<close> follows the C function except
  that zero to a negative power raises ZeroDivisionError, an overflow raises
  OverflowError, and a negative base with a fractional exponent gives a complex number
  (Python 3).  A complex number is kept exact.
\<close>

datatype pynum = Real pyfloat | Cplx complex | CplxNonFinite

definition py_mul :: "pyfloat \<Rightarrow> pyfloat \<Rightarrow> pyfloat" where
  "py_mul x y = (case np_mul x y of Finite r \<Rightarrow> fl r | z \<Rightarrow> z)"

definition py_div :: "pyfloat \<Rightarrow> pyfloat \<Rightarrow> py_error + pyfloat" where
  "py_div x y =
     (if y = Finite 0 then Inl ZeroDivisionError
      else Inr (case np_div x y of Finite r \<Rightarrow> fl r | z \<Rightarrow> z))"

definition py_pow :: "pyfloat \<Rightarrow> pyfloat \<Rightarrow> py_error + pynum" where
  "py_pow x y =
     (case (x, y) of
        (Finite a, Finite b) \<Rightarrow>
          if a = 0 \<and> b < 0 then Inl ZeroDivisionError
          else if a < 0 \<and> b \<noteq> of_int \<lfloor>b\<rfloor>
            then (if float_max < (- a) powr b then Inl OverflowError
                  else Inr (Cplx (complex_of_real ((- a) powr b) * cis (pi * b))))
          else (case c_pow x y of
                  PInf \<Rightarrow> Inl OverflowError
                | NInf \<Rightarrow> Inl OverflowError
                | r \<Rightarrow> Inr (Real r))
      | _ \<Rightarrow> Inr (Real (c_pow x y)))"

fun pynum_mul :: "pynum \<Rightarrow> pynum \<Rightarrow> pynum" where
  "pynum_mul (Real x) (Real y) = Real (py_mul x y)"
| "pynum_mul (Real (Finite a)) (Cplx z) = Cplx (complex_of_real a * z)"
| "pynum_mul (Cplx z) (Real (Finite b)) = Cplx (z * complex_of_real b)"
| "pynum_mul (Cplx z) (Cplx w) = Cplx (z * w)"
| "pynum_mul x y = CplxNonFinite"

section \<open>Scaling laws\<close>

text \<open>
  \<^verbatim>\<open>scale_tau_d(tau_d, nu_i, nu_f, beta)\<close>, lines 240 to 254, on scalar arguments:
  \<open>tau_d\<close> is any number (so that the result of one call can be passed to the next),
  the frequencies and \<open>beta\<close> are finite floats.  The local \<^verbatim>\<open>exp\<close> is assigned in
  the two branches only, so it is unbound when \<open>beta = 4\<close>; the return expression then
  divides \<^verbatim>\<open>nu_f/nu_i\<close> first and raises UnboundLocalError when it reads \<^verbatim>\<open>exp\<close>.
\<close>

definition tau_d_exp :: "real \<Rightarrow> py_error + pyfloat option" where
  "tau_d_exp beta =
     (if beta < 4
        then map_sum id Some (py_div (py_mul (Finite (- 2.0)) (Finite beta)) (Finite (beta - 2)))
      else if beta > 4 then map_sum id Some (py_div (Finite (- 8.0)) (Finite (6 - beta)))
      else Inr None)"

definition scale_tau_d :: "pynum \<Rightarrow> real \<Rightarrow> real \<Rightarrow> real \<Rightarrow> py_error + pynum" where
  "scale_tau_d tau_d nu_i nu_f beta =
     (case tau_d_exp beta of
        Inl e \<Rightarrow> Inl e
      | Inr exp_opt \<Rightarrow>
          (case py_div (Finite nu_f) (Finite nu_i) of
             Inl e \<Rightarrow> Inl e
           | Inr ratio \<Rightarrow>
               (case exp_opt of
                  None \<Rightarrow> Inl UnboundLocalError
                | Some ex \<Rightarrow>
                    (case py_pow ratio ex of
                       Inl e \<Rightarrow> Inl e
                     | Inr p \<Rightarrow> Inr (pynum_mul tau_d p)))))"

section \<open>Quantities, constants and collaborators\<close>

text \<open>
  A quantity built by \<^verbatim>\<open>make_quant\<close> is represented by its value in a fixed unit:
  frequencies in MHz, dispersion measures in pc/cm^3, times in the unit the source names.
  \<^verbatim>\<open>.to(unit)\<close> between time units multiplies the value: \<open>convert_time\<close> on a finite
  value, \<open>quantity_to\<close> on the elements of an array.
\<close>

datatype time_unit = U_s | U_ms | U_us

fun ms_per :: "time_unit \<Rightarrow> real" where
  "ms_per U_s = 1000"
| "ms_per U_ms = 1"
| "ms_per U_us = 1 / 1000"

definition convert_time :: "time_unit \<Rightarrow> time_unit \<Rightarrow> real \<Rightarrow> real" where
  "convert_time src dst v = v * ms_per src / ms_per dst"

definition quantity_to :: "time_unit \<Rightarrow> time_unit \<Rightarrow> pyfloat \<Rightarrow> pyfloat" where
  "quantity_to src dst v = np_mul v (Finite (ms_per src / ms_per dst))"

text \<open>
  Subtracting two quantities converts the second to the unit of the first, and raises
  UnitConversionError when one is a time and the other a frequency.
\<close>

datatype quantity_unit = Time time_unit | MHz

definition quantity_sub ::
  "real list \<times> quantity_unit \<Rightarrow> real \<times> quantity_unit \<Rightarrow> py_error + real list" where
  "quantity_sub q1 q2 =
     (case (snd q1, snd q2) of
        (Time a, Time b) \<Rightarrow> Inr (map (\<lambda>x. x - convert_time b a (fst q2)) (fst q1))
      | (MHz, MHz) \<Rightarrow> Inr (map (\<lambda>x. x - fst q2) (fst q1))
      | _ \<Rightarrow> Inl UnitConversionError)"

text \<open>
  What the module imports and does not define: \<^verbatim>\<open>shift_t\<close> of
  \<^verbatim>\<open>utils.utils\<close> (the delay-application primitive), the constants
  \<^verbatim>\<open>DM_K\<close> and \<^verbatim>\<open>KOLMOGOROV_BETA\<close> of \<^verbatim>\<open>utils.constants\<close>, and the
  transforms of \<^verbatim>\<open>numpy.fft\<close>.  They are parameters of the model.  \<open>DM_K\<close> is the
  value of the dispersion constant and \<open>DM_K_time\<close> the time unit it is expressed in,
  the rest of its unit being MHz^2 cm^3 / pc.  Nothing is assumed of the row that
  \<open>shift_t\<close> returns, not even its length.
\<close>

record externals =
  shift_t :: "pyfloat list \<Rightarrow> pyfloat \<Rightarrow> pyfloat \<Rightarrow> pyfloat list"
  DM_K :: real
  DM_K_time :: time_unit
  KOLMOGOROV_BETA :: real
  rfft :: "pyfloat list \<Rightarrow> complex list"
  irfft :: "complex list \<Rightarrow> pyfloat list"
  rfftfreq :: "int \<Rightarrow> pyfloat \<Rightarrow> real list"

section \<open>The signal and the ISM object\<close>

text \<open>
  The attributes of a signal that the module reads and writes.  Fields named \<open>sig_x\<close>
  stand for the attributes \<^verbatim>\<open>_x\<close>.  The samples are floats; the channel frequencies,
  the centre frequency and the bandwidth \<open>bw\<close> are finite values in MHz, and
  \<open>sig_samprate\<close> is the sample rate in kHz, so that
  \<^verbatim>\<open>(1/signal._samprate).to('ms').value\<close> is \<open>1 / sig_samprate\<close>.  An attribute that
  may be absent is an option: \<^verbatim>\<open>hasattr(signal, '_dispersed')\<close> is
  \<open>sig_dispersed signal \<noteq> None\<close>.
\<close>

record signal =
  sigtype :: string
  Nchan :: int
  bw :: real
  sig_data :: "pyfloat list list"
  sig_dat_freq :: "real list"
  sig_samprate :: real
  sig_fcent :: real
  sig_dm :: "real option"
  sig_dispersed :: "bool option"
  sig_FDshifted :: "bool option"

text \<open>
  An instance of class \<^verbatim>\<open>ISM\<close>.  The class body and \<^verbatim>\<open>__init__\<close> assign no
  attribute, yet \<^verbatim>\<open>_disperse_baseband\<close> reads \<^verbatim>\<open>self.MD.mode\<close> and writes
  \<^verbatim>\<open>self.Signal_in.undispersedsig\<close>.  \<open>MD\<close> is the mode of the attached object
  and \<open>Signal_in\<close> its array of undispersed rows, \<open>None\<close> when the attribute is absent.
\<close>

record ISM =
  MD :: "string option"
  Signal_in :: "pyfloat list list option"

definition ISM_init :: ISM where
  "ISM_init = \<lparr>MD = None, Signal_in = None\<rparr>"

text \<open>
  Writing a row of a numpy matrix, \<^verbatim>\<open>signal._data[ii,:] = new\<close>: the new row must
  have the length of the old one, or a single element that is repeated; any other
  length raises ValueError and writes nothing.
\<close>

definition assign_row :: "pyfloat list \<Rightarrow> pyfloat list \<Rightarrow> py_error + pyfloat list" where
  "assign_row row new =
     (if length new = length row then Inr new
      else (case new of
              [v] \<Rightarrow> Inr (replicate (length row) v)
            | _ \<Rightarrow> Inl ValueError))"

section \<open>Calling a Python function\<close>

text \<open>
  The values that \<^verbatim>\<open>scatter_broaden\<close> passes around: the ISM instance, a number and
  an array.
\<close>

datatype pyval = Instance ISM | Num pynum | Array "pyfloat list"

text \<open>
  Argument binding of a call to a function whose parameters are \<open>params\<close>, the last
  ones with the default values \<open>defaults\<close>.  Positional arguments fill the parameters
  from the left; a keyword argument that names no parameter, or a parameter that
  already has a value, raises TypeError, as do too many positional arguments and a
  parameter left without a value.  The result lists the values in parameter order.
\<close>

fun bind_keywords ::
  "string list \<Rightarrow> (string \<times> pyval) list \<Rightarrow> (string \<times> pyval) list
     \<Rightarrow> py_error + (string \<times> pyval) list" where
  "bind_keywords params bound [] = Inr bound"
| "bind_keywords params bound ((k, v) # kwargs) =
     (if k \<in> set params
      then (if k \<in> fst ` set bound then Inl TypeError
            else bind_keywords params (bound @ [(k, v)]) kwargs)
      else Inl TypeError)"

fun fill_defaults ::
  "string list \<Rightarrow> (string \<times> pyval) list \<Rightarrow> (string \<times> pyval) list \<Rightarrow> py_error + pyval list" where
  "fill_defaults [] defaults bound = Inr []"
| "fill_defaults (p # params) defaults bound =
     (case (case map_of bound p of Some v \<Rightarrow> Some v | None \<Rightarrow> map_of defaults p) of
        None \<Rightarrow> Inl TypeError
      | Some v \<Rightarrow>
          (case fill_defaults params defaults bound of
             Inl e \<Rightarrow> Inl e
           | Inr vs \<Rightarrow> Inr (v # vs)))"

definition bind_arguments ::
  "string list \<Rightarrow> (string \<times> pyval) list \<Rightarrow> pyval list \<Rightarrow> (string \<times> pyval) list
     \<Rightarrow> py_error + pyval list" where
  "bind_arguments params defaults args kwargs =
     (case bind_keywords params (zip params args) kwargs of
        Inl e \<Rightarrow> Inl e
      | Inr bound \<Rightarrow>
          if length params < length args then Inl TypeError
          else fill_defaults params defaults bound)"

text \<open>
  \<^verbatim>\<open>scale_tau_d\<close> as the object stored in the class: its four parameters are
  \<^verbatim>\<open>tau_d, nu_i, nu_f, beta\<close>, with no \<^verbatim>\<open>self\<close>.  With scalars it is
  \<open>scale_tau_d\<close>.  With an array for \<^verbatim>\<open>nu_f\<close> the exponent is computed as before and
  the division, the power and the product are those of numpy, element by element, which
  raise nothing.  Other combinations of argument types are not followed further than a
  TypeError.
\<close>

definition scale_array ::
  "pyfloat \<Rightarrow> real \<Rightarrow> pyfloat list \<Rightarrow> real \<Rightarrow> py_error + pyfloat list" where
  "scale_array tau_d nu_i nu_f beta =
     (case tau_d_exp beta of
        Inl e \<Rightarrow> Inl e
      | Inr None \<Rightarrow> Inl UnboundLocalError
      | Inr (Some ex) \<Rightarrow>
          Inr (map (\<lambda>f. np_mul tau_d (c_pow (np_div f (Finite nu_i)) ex)) nu_f))"

fun scale_tau_d_values :: "pyval \<Rightarrow> pyval \<Rightarrow> pyval \<Rightarrow> pyval \<Rightarrow> py_error + pyval" where
  "scale_tau_d_values (Num tau_d) (Num (Real (Finite nu_i))) (Num (Real (Finite nu_f)))
       (Num (Real (Finite beta))) =
     map_sum id Num (scale_tau_d tau_d nu_i nu_f beta)"
| "scale_tau_d_values (Num (Real tau_d)) (Num (Real (Finite nu_i))) (Array nu_f)
       (Num (Real (Finite beta))) =
     map_sum id Array (scale_array tau_d nu_i nu_f beta)"
| "scale_tau_d_values _ _ _ _ = Inl TypeError"

definition call_scale_tau_d ::
  "externals \<Rightarrow> pyval list \<Rightarrow> (string \<times> pyval) list \<Rightarrow> py_error + pyval" where
  "call_scale_tau_d E args kwargs =
     (case bind_arguments [''tau_d'', ''nu_i'', ''nu_f'', ''beta'']
             [(''beta'', Num (Real (Finite (KOLMOGOROV_BETA E))))] args kwargs of
        Inl e \<Rightarrow> Inl e
      | Inr [tau_d, nu_i, nu_f, beta] \<Rightarrow> scale_tau_d_values tau_d nu_i nu_f beta
      | Inr _ \<Rightarrow> Inl TypeError)"

text \<open>
  \<^verbatim>\<open>self.f(args, kwargs)\<close>: a function found in the class through an instance is
  called with the instance as its first positional argument.
\<close>

definition call_method ::
  "(pyval list \<Rightarrow> (string \<times> pyval) list \<Rightarrow> py_error + pyval)
     \<Rightarrow> ISM \<Rightarrow> pyval list \<Rightarrow> (string \<times> pyval) list \<Rightarrow> py_error + pyval" where
  "call_method f self args kwargs = f (Instance self # args) kwargs"

section \<open>The per-channel shift loop\<close>

text \<open>
  The loop of lines 43 to 60, repeated at lines 114 to 131 and 169 to 186:
  \<^verbatim>\<open>
  for ii, freq in enumerate(freq_array):
      signal._data[ii,:] = shift_t(signal._data[ii,:], delays[ii].value, dt=shift_dt.value)
      if (ii+1) % int(signal.Nchan//20) == 0:
          ... print the progress ...
  \<close>
  The delays hold one entry per element of \<^verbatim>\<open>freq_array\<close>, so the recursion runs
  over them with the index \<open>ii\<close>.  Reading a row that the matrix does not have raises
  IndexError; writing a row of another length raises ValueError.  The modulus raises
  ZeroDivisionError when \<^verbatim>\<open>signal.Nchan//20\<close> is \<open>0\<close>, after the row was written;
  otherwise the progress line is printed or not, which changes nothing in the signal.
\<close>

fun shift_channels ::
  "externals \<Rightarrow> pyfloat \<Rightarrow> nat \<Rightarrow> pyfloat list \<Rightarrow> signal \<Rightarrow> py_error option \<times> signal" where
  "shift_channels E shift_dt ii [] signal = (None, signal)"
| "shift_channels E shift_dt ii (delay # delays) signal =
     (if length (sig_data signal) \<le> ii then (Some IndexError, signal)
      else
        (case assign_row (sig_data signal ! ii)
                (shift_t E (sig_data signal ! ii) delay shift_dt) of
           Inl e \<Rightarrow> (Some e, signal)
         | Inr new \<Rightarrow>
             let signal' = signal\<lparr>sig_data := (sig_data signal)[ii := new]\<rparr>
             in if Nchan signal' div 20 = 0 then (Some ZeroDivisionError, signal')
                else shift_channels E shift_dt (Suc ii) delays signal'))"

text \<open>\<^verbatim>\<open>(1/signal._samprate).to('ms')\<close>, the sample interval in ms.\<close>

definition sample_interval :: "signal \<Rightarrow> pyfloat" where
  "sample_interval signal = np_div (Finite 1) (Finite (sig_samprate signal))"

section \<open>Dispersion\<close>

text \<open>
  \<^verbatim>\<open>_disperse_filterbank\<close>, lines 35 to 60.  \<open>dispersion_delays\<close> is line 38,
  \<^verbatim>\<open>(DM_K * dm * np.power(freq_array,-2)).to('ms')\<close>: at a frequency of \<open>0\<close> the power
  is \<open>inf\<close>, and the delay \<open>inf\<close>, \<open>-inf\<close> or NaN.
\<close>

definition dispersion_delay :: "externals \<Rightarrow> real \<Rightarrow> real \<Rightarrow> pyfloat" where
  "dispersion_delay E dm freq =
     quantity_to (DM_K_time E) U_ms
       (np_mul (Finite (DM_K E * dm)) (np_power_int (Finite freq) (- 2)))"

definition dispersion_delays :: "externals \<Rightarrow> real \<Rightarrow> real list \<Rightarrow> pyfloat list" where
  "dispersion_delays E dm freq_array = map (dispersion_delay E dm) freq_array"

definition disperse_filterbank :: "externals \<Rightarrow> signal \<Rightarrow> real \<Rightarrow> py_error option \<times> signal" where
  "disperse_filterbank E signal dm =
     (let freq_array = sig_dat_freq signal;
          time_delays = dispersion_delays E dm freq_array;
          shift_dt = sample_interval signal
      in shift_channels E shift_dt 0 time_delays signal)"

text \<open>
  \<^verbatim>\<open>_disperse_baseband\<close>, lines 62 to 88: the loop over \<^verbatim>\<open>range(signal.Nchan)\<close>.
  \<open>chirp\<close> is lines 72 to 84 for one row.  The transform of an empty row raises
  ValueError.  Line 76 tags the frequency axis with \<^verbatim>\<open>'us'\<close>, and line 78 subtracts
  half the bandwidth, a quantity in MHz, from it: that raises UnitConversionError.  What
  follows line 78 works on the bare values.  Only after \<open>chirp\<close> is
  \<^verbatim>\<open>self.MD.mode\<close> read, which raises AttributeError when the instance has no
  \<^verbatim>\<open>MD\<close>, and only after that is the row overwritten.
\<close>

definition chirp :: "externals \<Rightarrow> signal \<Rightarrow> real \<Rightarrow> pyfloat list \<Rightarrow> py_error + pyfloat list" where
  "chirp E signal dm row =
     (if row = [] then Inl ValueError
      else
        let f0 = sig_fcent signal;
            dt = quantity_to U_ms U_us (sample_interval signal);
            fourier = rfft E row;
            u = rfftfreq E (2 * int (length fourier) - 1) (quantity_to U_us U_s dt)
        in (case quantity_sub (u, Time U_us) (bw signal / 2, MHz) of
              Inl e \<Rightarrow> Inl e
            | Inr f \<Rightarrow>
                let H = map (\<lambda>f. exp (\<i> * complex_of_real
                          (2 * pi * DM_K E / ((f + f0) * f0 ^ 2) * dm * f ^ 2))) f;
                    product = map2 (*) fourier H
                in Inr (irfft E product)))"

fun disperse_baseband_loop ::
  "externals \<Rightarrow> real \<Rightarrow> nat list \<Rightarrow> ISM \<Rightarrow> signal \<Rightarrow> py_error option \<times> ISM \<times> signal" where
  "disperse_baseband_loop E dm [] self signal = (None, self, signal)"
| "disperse_baseband_loop E dm (x # xs) self signal =
     (if length (sig_data signal) \<le> x then (Some IndexError, self, signal)
      else
        let row = sig_data signal ! x in
        (case chirp E signal dm row of
           Inl e \<Rightarrow> (Some e, self, signal)
         | Inr Dispersed \<Rightarrow>
             (case MD self of
                None \<Rightarrow> (Some AttributeError, self, signal)
              | Some mode \<Rightarrow>
                  (case (if mode = ''explore''
                         then (case Signal_in self of
                                 None \<Rightarrow> Inl AttributeError
                               | Some undispersedsig \<Rightarrow>
                                   if length undispersedsig \<le> x then Inl IndexError
                                   else (case assign_row (undispersedsig ! x) row of
                                           Inl e \<Rightarrow> Inl e
                                         | Inr kept \<Rightarrow>
                                             Inr (self\<lparr>Signal_in :=
                                                    Some (undispersedsig[x := kept])\<rparr>)))
                         else Inr self) of
                     Inl e \<Rightarrow> (Some e, self, signal)
                   | Inr self' \<Rightarrow>
                       (case assign_row row Dispersed of
                          Inl e \<Rightarrow> (Some e, self', signal)
                        | Inr new \<Rightarrow>
                            disperse_baseband_loop E dm xs self'
                              (signal\<lparr>sig_data := (sig_data signal)[x := new]\<rparr>))))))"

definition disperse_baseband ::
  "externals \<Rightarrow> ISM \<Rightarrow> signal \<Rightarrow> real \<Rightarrow> py_error option \<times> ISM \<times> signal" where
  "disperse_baseband E self signal dm =
     disperse_baseband_loop E dm [0 ..< nat (Nchan signal)] self signal"

text \<open>
  \<^verbatim>\<open>disperse\<close>, lines 18 to 33.  The assignment to \<^verbatim>\<open>signal._dm\<close> is the first
  statement, before the test of \<^verbatim>\<open>_dispersed\<close>.  The dispatch has no \<^verbatim>\<open>else\<close>:
  any other \<^verbatim>\<open>sigtype\<close> falls through to line 33.  An exception of a helper leaves
  \<^verbatim>\<open>_dispersed\<close> as it was.
\<close>

definition disperse ::
  "externals \<Rightarrow> ISM \<Rightarrow> signal \<Rightarrow> real \<Rightarrow> py_error option \<times> ISM \<times> signal" where
  "disperse E self signal0 dm =
     (let signal = signal0\<lparr>sig_dm := Some dm\<rparr> in
      if sig_dispersed signal \<noteq> None then (Some ValueError, self, signal)
      else
        (case (if sigtype signal = ''FilterBankSignal''
               then (case disperse_filterbank E signal dm of
                       (err, signal') \<Rightarrow> (err, self, signal'))
               else if sigtype signal = ''BasebandSignal''
               then disperse_baseband E self signal dm
               else (None, self, signal)) of
           (Some e, self', signal') \<Rightarrow> (Some e, self', signal')
         | (None, self', signal') \<Rightarrow> (None, self', signal'\<lparr>sig_dispersed := Some True\<rparr>)))"

section \<open>FD delays\<close>

text \<open>
  \<^verbatim>\<open>FD_shift\<close>, lines 90 to 134.  \<open>FD_delays\<close> is the accumulation of lines 105 to
  108 over \<^verbatim>\<open>range(len(FD_params))\<close>, with the reference frequency of 1000 MHz.
\<close>

definition FD_term :: "real \<Rightarrow> nat \<Rightarrow> real \<Rightarrow> pyfloat" where
  "FD_term FD ii freq =
     np_mul (Finite (- 1.0 * convert_time U_s U_ms FD))
       (np_power_int (np_log (np_div (Finite freq) (Finite 1000.0))) (int ii + 1))"

fun FD_delays :: "real list \<Rightarrow> nat \<Rightarrow> real list \<Rightarrow> pyfloat list \<Rightarrow> pyfloat list" where
  "FD_delays [] ii freq_array time_delays = time_delays"
| "FD_delays (FD # FD_params) ii freq_array time_delays =
     FD_delays FD_params (Suc ii) freq_array
       (map2 np_add time_delays (map (FD_term FD ii) freq_array))"

definition FD_shift :: "externals \<Rightarrow> signal \<Rightarrow> real list \<Rightarrow> py_error option \<times> signal" where
  "FD_shift E signal FD_params =
     (let freq_array = sig_dat_freq signal;
          time_delays =
            FD_delays FD_params 0 freq_array (replicate (length freq_array) (Finite 0));
          shift_dt = sample_interval signal
      in (case shift_channels E shift_dt 0 time_delays signal of
            (Some e, signal') \<Rightarrow> (Some e, signal')
          | (None, signal') \<Rightarrow> (None, signal'\<lparr>sig_FDshifted := Some True\<rparr>)))"

section \<open>Scatter broadening\<close>

text \<open>
  \<^verbatim>\<open>scatter_broaden\<close>, lines 136 to 195.  Line 162 calls
  \<^verbatim>\<open>self.scale_tau_d(tau_d, ref_freq, freq_array, beta=beta)\<close> before it looks at
  \<^verbatim>\<open>convolve\<close>.  Indexing a scaled delay that is not an array raises TypeError.
\<close>

definition scatter_broaden ::
  "externals \<Rightarrow> ISM \<Rightarrow> signal \<Rightarrow> real \<Rightarrow> real \<Rightarrow> real \<Rightarrow> bool \<Rightarrow> py_error option \<times> signal" where
  "scatter_broaden E self signal tau_d0 ref_freq beta convolve =
     (let freq_array = map Finite (sig_dat_freq signal);
          tau_d = convert_time U_s U_ms tau_d0
      in (case call_method (call_scale_tau_d E) self
                 [Num (Real (Finite tau_d)), Num (Real (Finite ref_freq)), Array freq_array]
                 [(''beta'', Num (Real (Finite beta)))] of
            Inl e \<Rightarrow> (Some e, signal)
          | Inr tau_d_scaled \<Rightarrow>
              if \<not> convolve
              then (let shift_dt = sample_interval signal in
                    case tau_d_scaled of
                      Array delays \<Rightarrow> shift_channels E shift_dt 0 delays signal
                    | _ \<Rightarrow> (if freq_array = [] then (None, signal)
                            else (Some TypeError, signal)))
              else (Some NotImplementedError, signal)))"

section \<open>Reference functions and example inputs\<close>

text \<open>
  What the shift loop computes when it runs to its end and every shifted row has the
  length of the row it replaces: the rows \<open>ii\<close>, \<open>ii + 1\<close>, ... are replaced by their
  shifted versions, one per delay.
\<close>

fun shifted_rows ::
  "externals \<Rightarrow> pyfloat \<Rightarrow> nat \<Rightarrow> pyfloat list \<Rightarrow> pyfloat list list \<Rightarrow> pyfloat list list" where
  "shifted_rows E shift_dt ii [] rows = rows"
| "shifted_rows E shift_dt ii (delay # delays) rows =
     shifted_rows E shift_dt (Suc ii) delays (rows[ii := shift_t E (rows ! ii) delay shift_dt])"


definition in_float_range :: "real \<Rightarrow> bool" where
  "in_float_range v = (v = 0 \<or> (float_min \<le> \<bar>v\<bar> \<and> \<bar>v\<bar> \<le> float_max))"

text \<open>
  Concrete collaborators for evaluating the model: a shift by whole samples that turns
  the row into NaN when the delay or the sample interval is not finite, the dispersion
  constant in MHz^2 cm^3 s / pc, and placeholders for the transforms.
\<close>

definition example_shift_t :: "pyfloat list \<Rightarrow> pyfloat \<Rightarrow> pyfloat \<Rightarrow> pyfloat list" where
  "example_shift_t row delay dt =
     (case (delay, dt) of
        (Finite d, Finite t) \<Rightarrow> rotate (nat \<lfloor>d / t\<rfloor>) row
      | _ \<Rightarrow> map (\<lambda>x. NaN) row)"

definition example_externals :: externals where
  "example_externals =
     \<lparr>shift_t = example_shift_t, DM_K = 4148.808, DM_K_time = U_s, KOLMOGOROV_BETA = 11 / 3,
      rfft = (\<lambda>row. replicate (length row div 2 + 1) 0),
      irfft = (\<lambda>spectrum. replicate (2 * (length spectrum - 1)) (Finite 0)),
      rfftfreq = (\<lambda>n d. replicate (nat (n div 2 + 1)) 0)\<rparr>"

text \<open>
  The scenario of the specification: four channels at 1200, 1300, 1400 and 1500 MHz
  sampled at 1 kHz, here with four samples per channel.
\<close>

definition example_filterbank :: signal where
  "example_filterbank =
     \<lparr>sigtype = ''FilterBankSignal'', Nchan = 4, bw = 400,
      sig_data = [map Finite [1, 2, 3, 4], map Finite [5, 6, 7, 8],
                  map Finite [9, 10, 11, 12], map Finite [13, 14, 15, 16]],
      sig_dat_freq = [1200, 1300, 1400, 1500],
      sig_samprate = 1, sig_fcent = 1350,
      sig_dm = None, sig_dispersed = None, sig_FDshifted = None\<rparr>"

definition example_baseband :: signal where
  "example_baseband =
     \<lparr>sigtype = ''BasebandSignal'', Nchan = 1, bw = 100,
      sig_data = [map Finite [1, 2, 3, 4]],
      sig_dat_freq = [1400],
      sig_samprate = 200000, sig_fcent = 1400,
      sig_dm = None, sig_dispersed = None, sig_FDshifted = None\<rparr>"



definition example_unknown :: signal where
  "example_unknown = example_filterbank\<lparr>sigtype := ''Signal''\<rparr>"

section \<open>The range of the floats\<close>

lemma float_tiny_pos: "0 < float_tiny"
  by (simp add: float_tiny_def)

lemma float_tiny_less_min: "float_tiny < float_min"
proof -
  have "(2::real) ^ 1022 < 2 ^ 1075"
    by (rule power_strict_increasing) simp_all
  then show ?thesis
    by (simp add: float_tiny_def float_min_def frac_less2)
qed

lemma float_max_pos: "0 < float_max"
proof -
  have "(1::real) / 2 ^ 52 \<le> 1"
    by simp
  then have "(0::real) < 2 - 1 / 2 ^ 52"
    by linarith
  then show ?thesis
    unfolding float_max_def by (intro mult_pos_pos) simp_all
qed


lemma fl_in_range: "in_float_range v \<Longrightarrow> fl v = Finite v"
  using float_tiny_less_min float_tiny_pos float_max_pos
  by (auto simp: in_float_range_def fl_def)


lemma in_float_range_moderate:
  assumes "1 / 2 ^ 64 \<le> \<bar>v\<bar>" "\<bar>v\<bar> \<le> 2 ^ 64"
  shows "in_float_range v"
proof -
  have "(2::real) ^ 64 \<le> 2 ^ 1022"
    by (rule power_increasing) simp_all
  then have "float_min \<le> 1 / 2 ^ 64"
    by (simp add: float_min_def frac_le)
  moreover have "(2::real) ^ 64 \<le> 2 ^ 1023"
    by (rule power_increasing) simp_all
  moreover have "(2::real) ^ 1023 \<le> float_max"
  proof -
    have "(1::real) / 2 ^ 52 \<le> 1" by simp
    then have "(1::real) \<le> 2 - 1 / 2 ^ 52" by linarith
    then have "1 * (2::real) ^ 1023 \<le> (2 - 1 / 2 ^ 52) * 2 ^ 1023"
      by (rule mult_right_mono) simp
    then show ?thesis by (simp only: float_max_def mult_1)
  qed
  ultimately show ?thesis
    using assms by (simp add: in_float_range_def)
qed

section \<open>Properties of the scaling law\<close>









section \<open>The shift loop\<close>

lemma assign_row_same_length:
  "length new = length row \<Longrightarrow> assign_row row new = Inr new"
  by (simp add: assign_row_def)

lemma length_shifted_rows [simp]:
  "length (shifted_rows E dt ii delays rows) = length rows"
  by (induction delays arbitrary: ii rows) simp_all



lemma shift_channels_complete:
  assumes len: "\<And>row delay. length (shift_t E row delay dt) = length row"
  shows "Nchan signal div 20 \<noteq> 0 \<Longrightarrow> ii + length delays \<le> length (sig_data signal) \<Longrightarrow>
   shift_channels E dt ii delays signal =
     (None, signal\<lparr>sig_data := shifted_rows E dt ii delays (sig_data signal)\<rparr>)"
  by (induction delays arbitrary: ii signal)
    (simp_all add: Let_def assign_row_same_length len)

lemma shift_channels_first_fails:
  "Nchan signal div 20 = 0 \<Longrightarrow> ii < length (sig_data signal) \<Longrightarrow>
   length (shift_t E (sig_data signal ! ii) delay dt) = length (sig_data signal ! ii) \<Longrightarrow>
   shift_channels E dt ii (delay # delays) signal =
     (Some ZeroDivisionError,
      signal\<lparr>sig_data := (sig_data signal)[ii := shift_t E (sig_data signal ! ii) delay dt]\<rparr>)"
  by (simp add: Let_def assign_row_same_length)

lemma shift_channels_wrong_length:
  assumes "ii < length (sig_data signal)"
      and "length (shift_t E (sig_data signal ! ii) delay dt) \<noteq> length (sig_data signal ! ii)"
      and "length (shift_t E (sig_data signal ! ii) delay dt) \<noteq> 1"
  shows "shift_channels E dt ii (delay # delays) signal = (Some ValueError, signal)"
proof -
  have "assign_row (sig_data signal ! ii) (shift_t E (sig_data signal ! ii) delay dt) =
      Inl ValueError"
    using assms(2,3)
    by (cases "shift_t E (sig_data signal ! ii) delay dt" rule: list.exhaust)
      (auto simp: assign_row_def split: list.splits)
  then show ?thesis
    using assms(1) by simp
qed


section \<open>Dispersion delays\<close>

lemma ms_per_pos: "0 < ms_per u"
  by (cases u) simp_all

lemma dispersion_delay_finite:
  "freq \<noteq> 0 \<Longrightarrow> in_float_range (1 / freq ^ 2) \<Longrightarrow>
   dispersion_delay E dm freq =
     Finite (convert_time (DM_K_time E) U_ms (DM_K E * dm / freq ^ 2))"
  by (simp add: dispersion_delay_def quantity_to_def convert_time_def power_int_minus
      divide_inverse fl_in_range)




lemma dispersion_delay_decreasing:
  assumes "0 < DM_K E" "0 < dm" "0 < f1" "f1 < f2"
  shows "convert_time (DM_K_time E) U_ms (DM_K E * dm / f2 ^ 2)
       < convert_time (DM_K_time E) U_ms (DM_K E * dm / f1 ^ 2)"
proof -
  have "f1 ^ 2 < f2 ^ 2"
    using assms(3,4) by (simp add: power_strict_mono)
  moreover have "0 < DM_K E * dm" using assms(1,2) by simp
  moreover have "0 < f2 ^ 2 * f1 ^ 2" using assms(3,4) by simp
  ultimately have "DM_K E * dm / f2 ^ 2 < DM_K E * dm / f1 ^ 2"
    by (rule divide_strict_left_mono)
  then have "DM_K E * dm / f2 ^ 2 * ms_per (DM_K_time E)
      < DM_K E * dm / f1 ^ 2 * ms_per (DM_K_time E)"
    using ms_per_pos by (rule mult_strict_right_mono)
  then show ?thesis
    by (simp add: convert_time_def)
qed

section \<open>FD delays as a sum\<close>

lemma FD_term_finite:
  "0 < freq \<Longrightarrow> in_float_range (ln (freq / 1000) ^ (ii + 1)) \<Longrightarrow>
   FD_term FD ii freq = Finite (- convert_time U_s U_ms FD * ln (freq / 1000) ^ (ii + 1))"
  by (simp add: FD_term_def power_int_def nat_add_distrib fl_in_range)

lemma length_FD_delays:
  "length time_delays = length freq_array \<Longrightarrow>
   length (FD_delays FD_params ii freq_array time_delays) = length freq_array"
  by (induction FD_params arbitrary: ii time_delays) simp_all

lemma FD_delays_nth:
  "length time_delays = length freq_array \<Longrightarrow> i < length freq_array \<Longrightarrow>
   0 < freq_array ! i \<Longrightarrow> time_delays ! i = Finite a \<Longrightarrow>
   \<forall>k<length FD_params. in_float_range (ln (freq_array ! i / 1000) ^ (ii + k + 1)) \<Longrightarrow>
   FD_delays FD_params ii freq_array time_delays ! i =
     Finite (a +
       (\<Sum>k<length FD_params.
          - convert_time U_s U_ms (FD_params ! k) * ln (freq_array ! i / 1000) ^ (ii + k + 1)))"
proof (induction FD_params arbitrary: ii time_delays a)
  case Nil
  then show ?case by simp
next
  case (Cons FD FD_params)
  let ?step = "map2 np_add time_delays (map (FD_term FD ii) freq_array)"
  let ?L = "ln (freq_array ! i / 1000)"
  have len: "length ?step = length freq_array"
    using Cons.prems(1) by simp
  have first: "in_float_range (?L ^ (ii + 1))"
    using Cons.prems(5) [rule_format, of 0] by simp
  have rest: "\<forall>k<length FD_params. in_float_range (?L ^ (Suc ii + k + 1))"
  proof (intro allI impI)
    fix k assume "k < length FD_params"
    then have "Suc k < length (FD # FD_params)" by simp
    then have "in_float_range (?L ^ (ii + Suc k + 1))"
      by (rule Cons.prems(5) [rule_format])
    then show "in_float_range (?L ^ (Suc ii + k + 1))" by simp
  qed
  have step_i: "?step ! i = Finite (a - convert_time U_s U_ms FD * ?L ^ (ii + 1))"
    using Cons.prems(1-4) first by (simp add: FD_term_finite)
  have "FD_delays (FD # FD_params) ii freq_array time_delays ! i =
      FD_delays FD_params (Suc ii) freq_array ?step ! i"
    by simp
  also have "\<dots> = Finite (a - convert_time U_s U_ms FD * ?L ^ (ii + 1) +
      (\<Sum>k<length FD_params.
        - convert_time U_s U_ms (FD_params ! k) * ?L ^ (Suc ii + k + 1)))"
    using len Cons.prems(2,3) step_i rest by (rule Cons.IH)
  finally have unfolded: "FD_delays (FD # FD_params) ii freq_array time_delays ! i =
      Finite (a - convert_time U_s U_ms FD * ?L ^ (ii + 1) +
      (\<Sum>k<length FD_params.
        - convert_time U_s U_ms (FD_params ! k) * ?L ^ (Suc ii + k + 1)))" .
  have "(\<Sum>k<length (FD # FD_params).
        - convert_time U_s U_ms ((FD # FD_params) ! k) * ?L ^ (ii + k + 1)) =
      - convert_time U_s U_ms FD * ?L ^ (ii + 1) +
      (\<Sum>k<length FD_params.
        - convert_time U_s U_ms (FD_params ! k) * ?L ^ (Suc ii + k + 1))"
    by (simp add: sum.lessThan_Suc_shift del: sum.lessThan_Suc power_Suc)
  with unfolded show ?case
    by (simp del: sum.lessThan_Suc power_Suc)
qed

lemma FD_delays_sum:
  assumes "i < length freq_array" "0 < freq_array ! i"
      and "\<forall>k<length FD_params. in_float_range (ln (freq_array ! i / 1000) ^ (k + 1))"
  shows "FD_delays FD_params 0 freq_array (replicate (length freq_array) (Finite 0)) ! i =
     Finite (convert_time U_s U_ms
       (\<Sum>k<length FD_params. - (FD_params ! k) * ln (freq_array ! i / 1000) ^ (k + 1)))"
proof -
  have "FD_delays FD_params 0 freq_array (replicate (length freq_array) (Finite 0)) ! i =
      Finite (0 + (\<Sum>k<length FD_params.
        - convert_time U_s U_ms (FD_params ! k) * ln (freq_array ! i / 1000) ^ (0 + k + 1)))"
    using assms by (intro FD_delays_nth) simp_all
  moreover have "(\<Sum>k<length FD_params.
        - convert_time U_s U_ms (FD_params ! k) * ln (freq_array ! i / 1000) ^ (0 + k + 1)) =
      (\<Sum>k<length FD_params.
        (- (FD_params ! k) * ln (freq_array ! i / 1000) ^ (k + 1)) * 1000)"
    by (intro sum.cong) (simp_all add: convert_time_def)
  moreover have "\<dots> = (\<Sum>k<length FD_params.
        - (FD_params ! k) * ln (freq_array ! i / 1000) ^ (k + 1)) * 1000"
    by (simp only: sum_distrib_right)
  ultimately show ?thesis
    by (simp add: convert_time_def)
qed

section \<open>Scatter broadening: the call of the scaling law\<close>

text \<open>
  The call of line 162 passes four positional arguments, the instance first, to a
  function of four parameters and then names the last one again.
\<close>

lemma method_call_TypeError:
  "call_method (call_scale_tau_d E) self [a, b, c] [(''beta'', d)] = Inl TypeError"
  by (simp add: call_method_def call_scale_tau_d_def bind_arguments_def)

text \<open>
  C3.  With \<^verbatim>\<open>convolve = True\<close>, \<^verbatim>\<open>scatter_broaden\<close> raises TypeError for every
  signal and all arguments, and leaves the signal as it was: the call of line 162 fails
  before \<^verbatim>\<open>raise NotImplementedError()\<close> of line 195 is reached.
\<close>

theorem scatter_broaden_convolve_TypeError:
  "scatter_broaden E self signal tau_d ref_freq beta True = (Some TypeError, signal)"
  by (simp add: scatter_broaden_def method_call_TypeError)

text \<open>
  C4.  With \<^verbatim>\<open>convolve = False\<close>, \<^verbatim>\<open>scatter_broaden\<close> raises TypeError for every
  signal and all arguments, and leaves the signal as it was: no scaled delay is computed
  and no channel is shifted.
\<close>

theorem scatter_broaden_shift_TypeError:
  "scatter_broaden E self signal tau_d ref_freq beta False = (Some TypeError, signal)"
  by (simp add: scatter_broaden_def method_call_TypeError)

section \<open>Dispersion: the guard and the dispatch\<close>

text \<open>
  C1.  On a signal that is already dispersed, \<^verbatim>\<open>disperse\<close> raises ValueError and
  leaves the data and the flag as they were, but the dispersion measure recorded on the
  signal is overwritten by the new one.
\<close>

theorem disperse_again_overwrites_dm:
  "disperse E self (signal\<lparr>sig_dm := Some dm_old, sig_dispersed := Some True\<rparr>) dm_new =
     (Some ValueError, self, signal\<lparr>sig_dm := Some dm_new, sig_dispersed := Some True\<rparr>)"
  by (simp add: disperse_def Let_def del: not_None_eq)

text \<open>
  C9 (amended).  For every signal whose \<^verbatim>\<open>sigtype\<close> is neither
  \<^verbatim>\<open>'FilterBankSignal'\<close> nor \<^verbatim>\<open>'BasebandSignal'\<close>, \<^verbatim>\<open>disperse\<close> checks
  nothing about the type: if the signal is not yet dispersed the call returns normally,
  having recorded \<open>dm\<close> and set the flag with the data untouched; if it is already
  dispersed the call raises ValueError, as for any other signal.
\<close>

theorem disperse_unknown_sigtype:
  assumes "sigtype signal \<noteq> ''FilterBankSignal''" "sigtype signal \<noteq> ''BasebandSignal''"
  shows "disperse E self signal dm =
     (if sig_dispersed signal = None
      then (None, self, signal\<lparr>sig_dm := Some dm, sig_dispersed := Some True\<rparr>)
      else (Some ValueError, self, signal\<lparr>sig_dm := Some dm\<rparr>))"
  using assms by (simp add: disperse_def Let_def del: not_None_eq)

theorem disperse_unknown_sigtype_witness:
  "sigtype example_unknown \<noteq> ''FilterBankSignal'' \<and> sigtype example_unknown \<noteq> ''BasebandSignal''
   \<and> disperse example_externals ISM_init example_unknown 5 =
       (None, ISM_init, example_unknown\<lparr>sig_dm := Some 5, sig_dispersed := Some True\<rparr>)"
  using disperse_unknown_sigtype [of example_unknown example_externals ISM_init 5]
  by (simp add: example_unknown_def example_filterbank_def)

text \<open>
  C9 as stated fails on a signal of type \<^verbatim>\<open>'Signal'\<close>: the call completes.
\<close>

theorem unknown_sigtype_call_completes:
  "disperse example_externals ISM_init example_unknown 10 =
     (None, ISM_init, example_unknown\<lparr>sig_dm := Some 10, sig_dispersed := Some True\<rparr>)"
  by (simp add: disperse_def Let_def example_unknown_def example_filterbank_def del: not_None_eq)

section \<open>Signals with fewer than 20 channels\<close>

lemma disperse_first_fails:
  assumes "Nchan signal div 20 = 0"
      and "sig_dat_freq signal = freq # freqs" "sig_data signal = row # rows"
      and "sigtype signal = ''FilterBankSignal''" "sig_dispersed signal = None"
      and "length (shift_t E row (dispersion_delay E dm freq) (sample_interval signal)) = length row"
  shows "disperse E self signal dm =
           (Some ZeroDivisionError, self,
            signal\<lparr>sig_dm := Some dm,
                   sig_data :=
                     shift_t E row (dispersion_delay E dm freq) (sample_interval signal) # rows\<rparr>)"
proof -
  let ?signal = "signal\<lparr>sig_dm := Some dm\<rparr>"
  have dt: "sample_interval ?signal = sample_interval signal"
    by (simp add: sample_interval_def)
  have "shift_channels E (sample_interval signal) 0
          (dispersion_delay E dm freq # dispersion_delays E dm freqs) ?signal =
     (Some ZeroDivisionError,
      ?signal\<lparr>sig_data := (sig_data ?signal)[0 :=
         shift_t E (sig_data ?signal ! 0) (dispersion_delay E dm freq) (sample_interval signal)]\<rparr>)"
    using assms(1,3,6) by (intro shift_channels_first_fails) simp_all
  then have "disperse_filterbank E ?signal dm =
     (Some ZeroDivisionError,
      ?signal\<lparr>sig_data :=
         shift_t E row (dispersion_delay E dm freq) (sample_interval signal) # rows\<rparr>)"
    using assms(2,3) by (simp add: disperse_filterbank_def dispersion_delays_def Let_def dt)
  then show ?thesis
    using assms(4,5) by (simp add: disperse_def Let_def del: not_None_eq)
qed

lemma FD_shift_first_fails:
  assumes "Nchan signal div 20 = 0"
      and "sig_dat_freq signal = freq # freqs" "sig_data signal = row # rows"
      and "length (shift_t E row
             (FD_delays FD_params 0 (freq # freqs) (replicate (Suc (length freqs)) (Finite 0)) ! 0)
             (sample_interval signal)) = length row"
  shows "FD_shift E signal FD_params =
           (Some ZeroDivisionError,
            signal\<lparr>sig_data :=
                     shift_t E row
                       (FD_delays FD_params 0 (freq # freqs)
                          (replicate (Suc (length freqs)) (Finite 0)) ! 0)
                       (sample_interval signal) # rows\<rparr>)"
proof -
  let ?delays = "FD_delays FD_params 0 (freq # freqs) (replicate (Suc (length freqs)) (Finite 0))"
  have "length ?delays = length (freq # freqs)"
    by (rule length_FD_delays) simp
  then obtain d ds where ds: "?delays = d # ds"
    by (cases ?delays) simp_all
  then have d: "?delays ! 0 = d" by simp
  have keeps: "length (shift_t E row d (sample_interval signal)) = length row"
    using assms(4) unfolding d .
  have "shift_channels E (sample_interval signal) 0 (d # ds) signal =
     (Some ZeroDivisionError,
      signal\<lparr>sig_data := (sig_data signal)[0 :=
         shift_t E (sig_data signal ! 0) d (sample_interval signal)]\<rparr>)"
    using assms(1,3) keeps by (intro shift_channels_first_fails) simp_all
  then show ?thesis
    using assms(2,3) unfolding FD_shift_def Let_def assms(2) length_Cons ds d
    by simp
qed

text \<open>
  C10 (amended).  For every channelized signal with at least one channel and fewer than
  20 (\<open>0 \<le> Nchan < 20\<close>, so that \<^verbatim>\<open>Nchan // 20\<close> is \<open>0\<close>), and a delay primitive
  that returns for the row of channel 0 a row of the same length, \<^verbatim>\<open>disperse\<close> (on a
  signal not yet dispersed) and \<^verbatim>\<open>FD_shift\<close> raise ZeroDivisionError in the progress
  step of the first iteration: the row of channel 0 has been replaced by its shifted
  version, every other row is as it was, and neither \<^verbatim>\<open>_dispersed\<close> nor
  \<^verbatim>\<open>_FDshifted\<close> is set.  (When the returned row has another length, and more than
  one sample, the row assignment raises ValueError before the progress step and nothing
  is written: \<open>shift_channels_wrong_length\<close>.)
\<close>

theorem small_Nchan_ZeroDivisionError:
  assumes "0 \<le> Nchan signal" "Nchan signal < 20"
      and "sig_dat_freq signal = freq # freqs" "sig_data signal = row # rows"
      and "sigtype signal = ''FilterBankSignal''" "sig_dispersed signal = None"
      and "\<And>delay. length (shift_t E row delay (sample_interval signal)) = length row"
  shows "disperse E self signal dm =
           (Some ZeroDivisionError, self,
            signal\<lparr>sig_dm := Some dm,
                   sig_data :=
                     shift_t E row (dispersion_delay E dm freq) (sample_interval signal) # rows\<rparr>)
       \<and> FD_shift E signal FD_params =
           (Some ZeroDivisionError,
            signal\<lparr>sig_data :=
                     shift_t E row
                       (FD_delays FD_params 0 (freq # freqs)
                          (replicate (Suc (length freqs)) (Finite 0)) ! 0)
                       (sample_interval signal) # rows\<rparr>)"
proof -
  from assms(1,2) have small: "Nchan signal div 20 = 0" by simp
  have "disperse E self signal dm =
           (Some ZeroDivisionError, self,
            signal\<lparr>sig_dm := Some dm,
                   sig_data :=
                     shift_t E row (dispersion_delay E dm freq) (sample_interval signal) # rows\<rparr>)"
    using small assms(3-6) assms(7) by (rule disperse_first_fails)
  moreover have "FD_shift E signal FD_params =
           (Some ZeroDivisionError,
            signal\<lparr>sig_data :=
                     shift_t E row
                       (FD_delays FD_params 0 (freq # freqs)
                          (replicate (Suc (length freqs)) (Finite 0)) ! 0)
                       (sample_interval signal) # rows\<rparr>)"
    using small assms(3,4) assms(7) by (rule FD_shift_first_fails)
  ultimately show ?thesis by blast
qed

lemma example_shift_t_length [simp]: "length (example_shift_t row delay dt) = length row"
  by (simp add: example_shift_t_def split: pyfloat.splits)

theorem small_Nchan_ZeroDivisionError_witness:
  "disperse example_externals ISM_init example_filterbank 10 =
     (Some ZeroDivisionError, ISM_init,
      example_filterbank\<lparr>sig_dm := Some 10,
        sig_data :=
          shift_t example_externals (map Finite [1, 2, 3, 4])
            (dispersion_delay example_externals 10 1200) (sample_interval example_filterbank)
          # [map Finite [5, 6, 7, 8], map Finite [9, 10, 11, 12], map Finite [13, 14, 15, 16]]\<rparr>)
   \<and> FD_shift example_externals example_filterbank [1 / 10000] =
     (Some ZeroDivisionError,
      example_filterbank\<lparr>
        sig_data :=
          shift_t example_externals (map Finite [1, 2, 3, 4])
            (FD_delays [1 / 10000] 0 (1200 # [1300, 1400, 1500])
               (replicate (Suc (length [1300, 1400, 1500 :: real])) (Finite 0)) ! 0)
            (sample_interval example_filterbank)
          # [map Finite [5, 6, 7, 8], map Finite [9, 10, 11, 12], map Finite [13, 14, 15, 16]]\<rparr>)"
proof (rule small_Nchan_ZeroDivisionError)
  show "length (shift_t example_externals (map Finite [1, 2, 3, 4]) delay
      (sample_interval example_filterbank)) = length (map Finite [1, 2, 3, 4 :: real])" for delay
    by (simp add: example_externals_def)
qed (simp_all add: example_filterbank_def)

text \<open>
  C10 as stated fails for \<^verbatim>\<open>scatter_broaden\<close>: on the four-channel signal it raises
  TypeError before its loop, and no row is changed.
\<close>

theorem scatter_broaden_small_Nchan_TypeError:
  "scatter_broaden example_externals ISM_init example_filterbank 1 1000 (11 / 3) False =
     (Some TypeError, example_filterbank)"
  by (simp add: scatter_broaden_def call_method_def call_scale_tau_d_def bind_arguments_def)

lemma sample_interval_example_filterbank: "sample_interval example_filterbank = Finite 1"
  by (simp add: sample_interval_def example_filterbank_def)

lemma ln_six_fifths: "1 / 6 \<le> ln (6 / 5 :: real)" "ln (6 / 5 :: real) \<le> 1 / 5"
proof -
  have "ln 1 - ln (6 / 5 :: real) \<le> (1 - 6 / 5) / (6 / 5)"
    by (rule ln_diff_le) simp_all
  then show "1 / 6 \<le> ln (6 / 5 :: real)" by simp
  have "ln (6 / 5 :: real) \<le> 6 / 5 - 1"
    by (rule ln_le_minus_one) simp
  then show "ln (6 / 5 :: real) \<le> 1 / 5" by simp
qed

lemma ln_six_fifths_powers:
  "in_float_range (ln (6 / 5 :: real) ^ 1)" "in_float_range (ln (6 / 5 :: real) ^ 2)"
proof -
  have pos: "0 \<le> ln (6 / 5 :: real)"
    using ln_six_fifths(1) by linarith
  have "(1 / 6) ^ 2 \<le> ln (6 / 5 :: real) ^ 2"
    using ln_six_fifths(1) by (rule power_mono) simp
  moreover have "ln (6 / 5 :: real) ^ 2 \<le> (1 / 5) ^ 2"
    using ln_six_fifths(2) pos by (rule power_mono)
  ultimately have "1 / 2 ^ 64 \<le> \<bar>ln (6 / 5 :: real) ^ 2\<bar>" "\<bar>ln (6 / 5 :: real) ^ 2\<bar> \<le> 2 ^ 64"
    by (simp_all add: power2_eq_square)
  then show "in_float_range (ln (6 / 5 :: real) ^ 2)"
    by (rule in_float_range_moderate)
  have "1 / 2 ^ 64 \<le> \<bar>ln (6 / 5 :: real) ^ 1\<bar>" "\<bar>ln (6 / 5 :: real) ^ 1\<bar> \<le> 2 ^ 64"
    using ln_six_fifths pos by simp_all
  then show "in_float_range (ln (6 / 5 :: real) ^ 1)"
    by (rule in_float_range_moderate)
qed

text \<open>
  C2.  On the four-channel scenario of the specification, dispersed with \<open>dm = 10\<close>,
  and with a delay primitive that keeps the four samples of the row of channel 0,
  \<^verbatim>\<open>disperse\<close> applies the delay \<open>DM_K * dm / freq^2\<close> (in ms) to channel 0 only and
  then raises ZeroDivisionError: channels 1 to 3 are never shifted and the signal is not
  marked as dispersed.
\<close>

theorem disperse_four_channels_stops:
  assumes "length (shift_t E (map Finite [1, 2, 3, 4])
             (Finite (convert_time (DM_K_time E) U_ms (DM_K E * 10 / 1200 ^ 2))) (Finite 1)) = 4"
  shows "disperse E self example_filterbank 10 =
     (Some ZeroDivisionError, self,
      example_filterbank\<lparr>sig_dm := Some 10,
        sig_data := [shift_t E (map Finite [1, 2, 3, 4])
                       (Finite (convert_time (DM_K_time E) U_ms (DM_K E * 10 / 1200 ^ 2)))
                       (Finite 1),
                     map Finite [5, 6, 7, 8], map Finite [9, 10, 11, 12],
                     map Finite [13, 14, 15, 16]]\<rparr>)"
proof -
  have delay: "dispersion_delay E 10 1200 =
      Finite (convert_time (DM_K_time E) U_ms (DM_K E * 10 / 1200 ^ 2))"
    by (rule dispersion_delay_finite) (simp_all add: in_float_range_moderate)
  have "disperse E self example_filterbank 10 =
     (Some ZeroDivisionError, self,
      example_filterbank\<lparr>sig_dm := Some 10,
        sig_data := shift_t E (map Finite [1, 2, 3, 4]) (dispersion_delay E 10 1200)
                       (sample_interval example_filterbank)
                     # [map Finite [5, 6, 7, 8], map Finite [9, 10, 11, 12],
                        map Finite [13, 14, 15, 16]]\<rparr>)"
  proof (rule disperse_first_fails)
    show "length (shift_t E (map Finite [1, 2, 3, 4]) (dispersion_delay E 10 1200)
        (sample_interval example_filterbank)) = length (map Finite [1, 2, 3, 4 :: real])"
      using assms unfolding delay sample_interval_example_filterbank by simp
  qed (simp_all add: example_filterbank_def)
  then show ?thesis
    unfolding delay sample_interval_example_filterbank .
qed

theorem disperse_four_channels_stops_witness:
  "length (shift_t example_externals (map Finite [1, 2, 3, 4])
     (Finite (convert_time (DM_K_time example_externals) U_ms
        (DM_K example_externals * 10 / 1200 ^ 2))) (Finite 1)) = 4
   \<and> disperse example_externals ISM_init example_filterbank 10 =
     (Some ZeroDivisionError, ISM_init,
      example_filterbank\<lparr>sig_dm := Some 10,
        sig_data := [shift_t example_externals (map Finite [1, 2, 3, 4])
                       (Finite (convert_time (DM_K_time example_externals) U_ms
                          (DM_K example_externals * 10 / 1200 ^ 2)))
                       (Finite 1),
                     map Finite [5, 6, 7, 8], map Finite [9, 10, 11, 12],
                     map Finite [13, 14, 15, 16]]\<rparr>)"
proof -
  have keeps: "length (shift_t example_externals (map Finite [1, 2, 3, 4])
     (Finite (convert_time (DM_K_time example_externals) U_ms
        (DM_K example_externals * 10 / 1200 ^ 2))) (Finite 1)) = 4"
    by (simp add: example_externals_def)
  from disperse_four_channels_stops [OF keeps, of ISM_init] keeps show ?thesis
    by blast
qed

text \<open>
  C7.  On the same four-channel signal, and with a delay primitive that keeps the four
  samples of the row of channel 0, \<^verbatim>\<open>FD_shift\<close> with two coefficients applies the
  delay \<open>- FD1 * ln (freq / 1000) - FD2 * ln (freq / 1000)^2\<close> (in ms) to channel 0
  only and then raises ZeroDivisionError: channels 1 to 3 are never shifted and
  \<^verbatim>\<open>_FDshifted\<close> is not set.
\<close>

theorem FD_shift_four_channels_stops:
  assumes "length (shift_t E (map Finite [1, 2, 3, 4])
             (Finite (convert_time U_s U_ms
                (- FD1 * ln (1200 / 1000) ^ 1 - FD2 * ln (1200 / 1000) ^ 2))) (Finite 1)) = 4"
  shows "FD_shift E example_filterbank [FD1, FD2] =
     (Some ZeroDivisionError,
      example_filterbank\<lparr>
        sig_data := [shift_t E (map Finite [1, 2, 3, 4])
                       (Finite (convert_time U_s U_ms
                          (- FD1 * ln (1200 / 1000) ^ 1 - FD2 * ln (1200 / 1000) ^ 2)))
                       (Finite 1),
                     map Finite [5, 6, 7, 8], map Finite [9, 10, 11, 12],
                     map Finite [13, 14, 15, 16]]\<rparr>)"
proof -
  have "FD_delays [FD1, FD2] 0 (1200 # [1300, 1400, 1500])
          (replicate (length (1200 # [1300, 1400, 1500 :: real])) (Finite 0)) ! 0 =
      Finite (convert_time U_s U_ms
        (\<Sum>k<length [FD1, FD2]. - ([FD1, FD2] ! k) * ln ((1200 # [1300, 1400, 1500]) ! 0 / 1000) ^ (k + 1)))"
  proof (rule FD_delays_sum)
    show "\<forall>k<length [FD1, FD2].
        in_float_range (ln ((1200 # [1300, 1400, 1500]) ! 0 / 1000) ^ (k + 1))"
      using ln_six_fifths_powers by (simp add: less_Suc_eq numeral_2_eq_2)
  qed simp_all
  moreover have "(\<Sum>k<length [FD1, FD2].
        - ([FD1, FD2] ! k) * ln ((1200 # [1300, 1400, 1500]) ! 0 / 1000) ^ (k + 1)) =
      - FD1 * ln (1200 / 1000) ^ 1 - FD2 * ln (1200 / 1000) ^ 2"
    by (simp add: numeral_2_eq_2)
  ultimately have delay: "FD_delays [FD1, FD2] 0 (1200 # [1300, 1400, 1500])
          (replicate (Suc (length [1300, 1400, 1500 :: real])) (Finite 0)) ! 0 =
      Finite (convert_time U_s U_ms
        (- FD1 * ln (1200 / 1000) ^ 1 - FD2 * ln (1200 / 1000) ^ 2))"
    by (simp only: length_Cons)
  have "FD_shift E example_filterbank [FD1, FD2] =
     (Some ZeroDivisionError,
      example_filterbank\<lparr>
        sig_data := shift_t E (map Finite [1, 2, 3, 4])
                       (FD_delays [FD1, FD2] 0 (1200 # [1300, 1400, 1500])
                          (replicate (Suc (length [1300, 1400, 1500 :: real])) (Finite 0)) ! 0)
                       (sample_interval example_filterbank)
                     # [map Finite [5, 6, 7, 8], map Finite [9, 10, 11, 12],
                        map Finite [13, 14, 15, 16]]\<rparr>)"
  proof (rule FD_shift_first_fails)
    show "length (shift_t E (map Finite [1, 2, 3, 4])
        (FD_delays [FD1, FD2] 0 (1200 # [1300, 1400, 1500])
           (replicate (Suc (length [1300, 1400, 1500 :: real])) (Finite 0)) ! 0)
        (sample_interval example_filterbank)) = length (map Finite [1, 2, 3, 4 :: real])"
      using assms unfolding delay sample_interval_example_filterbank by simp
  qed (simp_all add: example_filterbank_def)
  then show ?thesis
    unfolding delay sample_interval_example_filterbank .
qed

theorem FD_shift_four_channels_stops_witness:
  "length (shift_t example_externals (map Finite [1, 2, 3, 4])
     (Finite (convert_time U_s U_ms
        (- (1 / 10000) * ln (1200 / 1000) ^ 1 - (1 / 100000) * ln (1200 / 1000) ^ 2)))
     (Finite 1)) = 4
   \<and> FD_shift example_externals example_filterbank [1 / 10000, 1 / 100000] =
     (Some ZeroDivisionError,
      example_filterbank\<lparr>
        sig_data := [shift_t example_externals (map Finite [1, 2, 3, 4])
                       (Finite (convert_time U_s U_ms
                          (- (1 / 10000) * ln (1200 / 1000) ^ 1
                           - (1 / 100000) * ln (1200 / 1000) ^ 2)))
                       (Finite 1),
                     map Finite [5, 6, 7, 8], map Finite [9, 10, 11, 12],
                     map Finite [13, 14, 15, 16]]\<rparr>)"
proof -
  have keeps: "length (shift_t example_externals (map Finite [1, 2, 3, 4])
     (Finite (convert_time U_s U_ms
        (- (1 / 10000) * ln (1200 / 1000) ^ 1 - (1 / 100000) * ln (1200 / 1000) ^ 2)))
     (Finite 1)) = 4"
    by (simp add: example_externals_def)
  from FD_shift_four_channels_stops [OF keeps] keeps show ?thesis
    by blast
qed

section \<open>Signals with 20 channels or more\<close>


lemma dispersion_delays_strictly_decreasing:
  assumes "0 < DM_K E" "0 < dm"
      and "i < length freq_array" "j < length freq_array"
      and "0 < freq_array ! i" "freq_array ! i < freq_array ! j"
      and "in_float_range (1 / (freq_array ! i) ^ 2)" "in_float_range (1 / (freq_array ! j) ^ 2)"
  shows "\<exists>di dj. dispersion_delays E dm freq_array ! i = Finite di
           \<and> dispersion_delays E dm freq_array ! j = Finite dj \<and> dj < di"
  using assms
  by (simp add: dispersion_delays_def dispersion_delay_finite dispersion_delay_decreasing)

lemma FD_shift_completes:
  assumes "Nchan signal div 20 \<noteq> 0"
      and "length (sig_dat_freq signal) \<le> length (sig_data signal)"
      and len: "\<And>row delay. length (shift_t E row delay (sample_interval signal)) = length row"
  shows "FD_shift E signal FD_params =
     (None,
      signal\<lparr>sig_data := shifted_rows E (sample_interval signal) 0
               (FD_delays FD_params 0 (sig_dat_freq signal)
                  (replicate (length (sig_dat_freq signal)) (Finite 0))) (sig_data signal),
             sig_FDshifted := Some True\<rparr>)"
proof -
  let ?delays = "FD_delays FD_params 0 (sig_dat_freq signal)
      (replicate (length (sig_dat_freq signal)) (Finite 0))"
  have "length ?delays = length (sig_dat_freq signal)"
    by (rule length_FD_delays) simp
  with assms(1,2) have "shift_channels E (sample_interval signal) 0 ?delays signal =
     (None, signal\<lparr>sig_data := shifted_rows E (sample_interval signal) 0 ?delays
        (sig_data signal)\<rparr>)"
    by (intro shift_channels_complete len) simp_all
  then show ?thesis
    by (simp add: FD_shift_def Let_def)
qed

lemma FD_shift_accumulates:
  assumes "Nchan signal div 20 \<noteq> 0"
      and "length (sig_dat_freq signal) \<le> length (sig_data signal)"
      and len: "\<And>row delay. length (shift_t E row delay (sample_interval signal)) = length row"
      and "FD_shift E signal FD_params = (err, signal')"
  shows "FD_shift E signal' FD_params =
     (None,
      signal\<lparr>sig_data := shifted_rows E (sample_interval signal) 0
               (FD_delays FD_params 0 (sig_dat_freq signal)
                  (replicate (length (sig_dat_freq signal)) (Finite 0)))
               (shifted_rows E (sample_interval signal) 0
                  (FD_delays FD_params 0 (sig_dat_freq signal)
                     (replicate (length (sig_dat_freq signal)) (Finite 0))) (sig_data signal)),
             sig_FDshifted := Some True\<rparr>)"
proof -
  let ?delays = "FD_delays FD_params 0 (sig_dat_freq signal)
      (replicate (length (sig_dat_freq signal)) (Finite 0))"
  have first: "signal' = signal\<lparr>sig_data := shifted_rows E (sample_interval signal) 0 ?delays
      (sig_data signal), sig_FDshifted := Some True\<rparr>"
    using assms(4) FD_shift_completes [OF assms(1,2) len, of FD_params] by simp
  have dt: "sample_interval signal' = sample_interval signal"
    by (simp add: first sample_interval_def)
  have "Nchan signal' div 20 \<noteq> 0" "length (sig_dat_freq signal') \<le> length (sig_data signal')"
    using assms(1,2) by (simp_all add: first)
  moreover have "\<And>row delay. length (shift_t E row delay (sample_interval signal')) = length row"
    by (simp add: dt len)
  ultimately have "FD_shift E signal' FD_params =
     (None,
      signal'\<lparr>sig_data := shifted_rows E (sample_interval signal') 0
               (FD_delays FD_params 0 (sig_dat_freq signal')
                  (replicate (length (sig_dat_freq signal')) (Finite 0))) (sig_data signal'),
             sig_FDshifted := Some True\<rparr>)"
    by (rule FD_shift_completes)
  then show ?thesis
    by (simp add: first dt [unfolded first])
qed

section \<open>Dispersion with a dispersion measure of zero\<close>






section \<open>Baseband dispersion\<close>

lemma chirp_unit_error:
  "row \<noteq> [] \<Longrightarrow> chirp E signal dm row = Inl UnitConversionError"
  by (simp add: chirp_def quantity_sub_def Let_def)

lemma disperse_baseband_unit_error:
  assumes "0 < Nchan signal" "sig_data signal = row # rows" "row \<noteq> []"
      and "sigtype signal = ''BasebandSignal''" "sig_dispersed signal = None"
  shows "disperse E self signal dm =
     (Some UnitConversionError, self, signal\<lparr>sig_dm := Some dm\<rparr>)"
proof -
  from assms(1) obtain n where n: "nat (Nchan signal) = Suc n"
    by (cases "nat (Nchan signal)") simp_all
  then have "[0 ..< nat (Nchan signal)] = 0 # [Suc 0 ..< Suc n]"
    by (simp add: upt_conv_Cons)
  moreover have "chirp E (signal\<lparr>sig_dm := Some dm\<rparr>) dm row = Inl UnitConversionError"
    using assms(3) by (simp add: chirp_def quantity_sub_def Let_def)
  ultimately have "disperse_baseband E self (signal\<lparr>sig_dm := Some dm\<rparr>) dm =
      (Some UnitConversionError, self, signal\<lparr>sig_dm := Some dm\<rparr>)"
    using assms(2) by (simp add: disperse_baseband_def Let_def)
  then show ?thesis
    using assms(4,5) by (simp add: disperse_def Let_def del: not_None_eq)
qed

text \<open>
  C5.  On a baseband signal with one channel, \<^verbatim>\<open>disperse\<close> raises
  UnitConversionError at line 78 on every ISM instance, for every dispersion measure
  and whatever the transforms return: the row is never multiplied by the chirp nor
  stored, so the data are as they were and the signal is not marked as dispersed.
\<close>

theorem disperse_baseband_UnitConversionError:
  "disperse E self example_baseband dm =
     (Some UnitConversionError, self, example_baseband\<lparr>sig_dm := Some dm\<rparr>)"
  by (rule disperse_baseband_unit_error [where row = "map Finite [1, 2, 3, 4]" and rows = "[]"])
    (simp_all add: example_baseband_def)

text \<open>
  Had line 78 produced a frequency axis, the read of \<^verbatim>\<open>self.MD\<close> at line 86
  would stop an instance without that attribute before the row is stored.
\<close>

lemma baseband_loop_no_MD:
  assumes "x < length (sig_data signal)"
      and "chirp E signal dm (sig_data signal ! x) = Inr Dispersed" "MD self = None"
  shows "disperse_baseband_loop E dm (x # xs) self signal = (Some AttributeError, self, signal)"
  using assms by (simp add: Let_def)

end
